theory Spec2Isabelle
  imports Main "HOL-Library.Sublist"
begin

section \<open>Values, errors and observable effects\<close>

text \<open>
  The script manage-thorium.py is a command dispatcher over four wrappers around external
  collaborators: a subprocess runner, an HTTP client, the file system and the terminal.
  The embedding keeps every function of the script under its own name. A run threads a
  trace of the effects performed so far (explicit state passing); the collaborators are
  fields of a \<open>world\<close> record, each of them a function of the trace so far and of the
  arguments of the call, so that the same command may succeed at one moment and fail at
  another.

  A Python \<open>str\<close> is a \<open>string\<close>, one \<open>char\<close> per code point; the model covers the code
  points below 256. An exception is a value of \<open>py_error\<close>; a function that may raise
  returns \<open>Inl\<close> of it together with the trace reached at the raise.

  What the collaborators hand back is typed: the body of a release response is the
  parsed JSON object with its \<open>assets\<close> key present or absent, every asset has a
  \<open>name\<close> and a \<open>browser_download_url\<close>, both strings, and the body of a download is the
  list of its chunks. The command line is the parsed subcommand. A request that gets no
  response raises \<open>ConnectionError\<close>, a file that cannot be opened raises \<open>OSError\<close>, and
  a write to an open file succeeds. The trace records every call of a collaborator, also
  one that raises.
\<close>

datatype py_error =
    IndexError
  | CalledProcessError int "string list"
  | FileNotFoundError
  | ConnectionError
  | HTTPError int
  | OSError

datatype event =
    Run "string list"
  | Get string
  | Open_wb string
  | Write string string
  | Print string

datatype proc_result = NotFound | Exited int string

record asset =
  name :: string
  browser_download_url :: string

record release_data =
  assets :: "asset list option"

record response =
  status_code :: int
  json :: release_data
  iter_content :: "string list"

datatype http_result = NoConnection | Response response

record world =
  proc :: "event list \<Rightarrow> string list \<Rightarrow> proc_result"
  http :: "event list \<Rightarrow> string \<Rightarrow> http_result"
  can_open :: "event list \<Rightarrow> string \<Rightarrow> bool"
  gettempdir :: string

datatype command = Install | Update | Remove

type_synonym 'a io = "event list \<Rightarrow> (py_error + 'a) \<times> event list"

definition return_io :: "'a \<Rightarrow> 'a io" where
  "return_io x tr = (Inr x, tr)"

definition raise_io :: "py_error \<Rightarrow> 'a io" where
  "raise_io e tr = (Inl e, tr)"

definition bind_io :: "'a io \<Rightarrow> ('a \<Rightarrow> 'b io) \<Rightarrow> 'b io" where
  "bind_io m f tr = (case m tr of (Inl e, tr') \<Rightarrow> (Inl e, tr') | (Inr x, tr') \<Rightarrow> f x tr')"

definition catch_io :: "'a io \<Rightarrow> (py_error \<Rightarrow> 'a io) \<Rightarrow> 'a io" where
  "catch_io m h tr = (case m tr of (Inl e, tr') \<Rightarrow> h e tr' | (Inr x, tr') \<Rightarrow> (Inr x, tr'))"

definition lift_io :: "py_error + 'a \<Rightarrow> 'a io" where
  "lift_io r tr = (r, tr)"

definition print_io :: "string \<Rightarrow> unit io" where
  "print_io s tr = (Inr (), tr @ [Print s])"

section \<open>The string operations of the Python runtime that the script uses\<close>

text \<open>\<open>str.isspace\<close> on one character, for the code points below 256.\<close>

definition isspace :: "char \<Rightarrow> bool" where
  "isspace c =
     (let n = (of_char c :: nat)
      in (9 \<le> n \<and> n \<le> 13) \<or> (28 \<le> n \<and> n \<le> 32) \<or> n = 133 \<or> n = 160)"

text \<open>\<open>s.strip()\<close>: whitespace removed at both ends.\<close>

definition strip :: "string \<Rightarrow> string" where
  "strip s = rev (dropWhile isspace (rev (dropWhile isspace s)))"

text \<open>
  \<open>s.split()\<close> with no separator: the maximal runs of non-whitespace characters, in order.
  The first argument is the field being read.
\<close>

fun split_fields :: "string \<Rightarrow> string \<Rightarrow> string list" where
  "split_fields cur [] = (if cur = [] then [] else [cur])"
| "split_fields cur (c # cs) =
     (if isspace c
      then (if cur = [] then split_fields [] cs else cur # split_fields [] cs)
      else split_fields (cur @ [c]) cs)"

definition split_ws :: "string \<Rightarrow> string list" where
  "split_ws s = split_fields [] s"

text \<open>\<open>s.split(sep)\<close> for a one-character separator: never empty, empty fields kept.\<close>

fun split_sep :: "char \<Rightarrow> string \<Rightarrow> string list" where
  "split_sep sep [] = [[]]"
| "split_sep sep (c # cs) =
     (if c = sep then [] # split_sep sep cs
      else (case split_sep sep cs of
              [] \<Rightarrow> [[c]]
            | f # fs \<Rightarrow> (c # f) # fs))"

definition startswith :: "string \<Rightarrow> string \<Rightarrow> bool" where
  "startswith s p = prefix p s"

definition endswith :: "string \<Rightarrow> string \<Rightarrow> bool" where
  "endswith s p = suffix p s"

text \<open>\<open>xs[i]\<close>: a negative index counts from the end, an index out of range raises.\<close>

fun py_index :: "'a list \<Rightarrow> int \<Rightarrow> py_error + 'a" where
  "py_index xs i =
     (if 0 \<le> i \<and> i < int (length xs) then Inr (xs ! nat i)
      else if i < 0 \<and> - int (length xs) \<le> i then Inr (xs ! nat (int (length xs) + i))
      else Inl IndexError)"

text \<open>
  \<open>os.path.join(a, b)\<close> of posixpath for two components: an absolute \<open>b\<close> replaces \<open>a\<close>,
  and a separator is inserted unless \<open>a\<close> is empty or already ends in one.
\<close>

definition os_path_join :: "string \<Rightarrow> string \<Rightarrow> string" where
  "os_path_join a b =
     (if startswith b ''/'' then b
      else if a = [] \<or> endswith a ''/'' then a @ b
      else a @ ''/'' @ b)"

section \<open>The external collaborators\<close>

text \<open>
  \<open>subprocess.run(cmd, check=True)\<close>: a missing binary raises FileNotFoundError, an exit
  status other than 0 raises CalledProcessError, otherwise the captured output is returned.
\<close>

definition subprocess_run :: "world \<Rightarrow> string list \<Rightarrow> string io" where
  "subprocess_run w cmd tr =
     (case proc w tr cmd of
        NotFound \<Rightarrow> (Inl FileNotFoundError, tr @ [Run cmd])
      | Exited returncode out \<Rightarrow>
          (if returncode \<noteq> 0 then (Inl (CalledProcessError returncode cmd), tr @ [Run cmd])
           else (Inr out, tr @ [Run cmd])))"

text \<open>\<open>requests.get(url)\<close>: a response, or ConnectionError when none arrives.\<close>

definition requests_get :: "world \<Rightarrow> string \<Rightarrow> response io" where
  "requests_get w url tr =
     (case http w tr url of
        NoConnection \<Rightarrow> (Inl ConnectionError, tr @ [Get url])
      | Response r \<Rightarrow> (Inr r, tr @ [Get url]))"

text \<open>\<open>r.raise_for_status()\<close>: raises for the client and server error codes.\<close>

definition raise_for_status :: "response \<Rightarrow> unit io" where
  "raise_for_status r =
     (if 400 \<le> status_code r \<and> status_code r < 600 then raise_io (HTTPError (status_code r))
      else return_io ())"

text \<open>\<open>open(path, 'wb')\<close>.\<close>

definition open_wb :: "world \<Rightarrow> string \<Rightarrow> unit io" where
  "open_wb w path tr =
     (if can_open w tr path then (Inr (), tr @ [Open_wb path]) else (Inl OSError, tr @ [Open_wb path]))"

text \<open>The loop \<open>for chunk in r.iter_content(chunk_size=8192): f.write(chunk)\<close>.\<close>

fun write_chunks :: "string \<Rightarrow> string list \<Rightarrow> unit io" where
  "write_chunks path [] = return_io ()"
| "write_chunks path (chunk # chunks) =
     bind_io (\<lambda>tr. (Inr (), tr @ [Write path chunk])) (\<lambda>_. write_chunks path chunks)"

section \<open>The functions of the script\<close>

definition get_installed_version :: "world \<Rightarrow> string option io" where
  "get_installed_version w =
     catch_io
       (bind_io (subprocess_run w [''thorium-browser'', ''--version'']) (\<lambda>stdout.
          let version_line = strip stdout
          in if startswith version_line ''Thorium''
             then bind_io (lift_io (py_index (split_ws version_line) 1)) (\<lambda>v. return_io (Some v))
             else return_io None))
       (\<lambda>e. case e of
          CalledProcessError rc cmd \<Rightarrow>
            bind_io (print_io ''Thorium browser is not installed or unable to get version.'')
              (\<lambda>_. return_io None)
        | FileNotFoundError \<Rightarrow>
            bind_io (print_io ''Thorium browser is not installed.'') (\<lambda>_. return_io None)
        | _ \<Rightarrow> raise_io e)"

definition install_deb :: "world \<Rightarrow> string \<Rightarrow> unit io" where
  "install_deb w file_path =
     catch_io
       (bind_io (subprocess_run w [''sudo'', ''nala'', ''install'', file_path]) (\<lambda>_. return_io ()))
       (\<lambda>e. case e of
          CalledProcessError rc cmd \<Rightarrow>
            bind_io (print_io ''Nala failed to install the package. Attempting with dpkg...'') (\<lambda>_.
            bind_io (subprocess_run w [''sudo'', ''dpkg'', ''-i'', file_path]) (\<lambda>_.
            bind_io (subprocess_run w [''sudo'', ''nala'', ''install'', ''-f'']) (\<lambda>_.
            return_io ())))
        | _ \<Rightarrow> raise_io e)"

definition remove_package :: "world \<Rightarrow> string \<Rightarrow> unit io" where
  "remove_package w package_name =
     catch_io
       (bind_io (subprocess_run w [''sudo'', ''nala'', ''remove'', package_name]) (\<lambda>_. return_io ()))
       (\<lambda>e. case e of
          CalledProcessError rc cmd \<Rightarrow>
            bind_io (print_io ''Nala failed to remove the package. Attempting with dpkg...'') (\<lambda>_.
            bind_io (subprocess_run w [''sudo'', ''dpkg'', ''-r'', package_name]) (\<lambda>_.
            return_io ()))
        | _ \<Rightarrow> raise_io e)"

definition download_file :: "world \<Rightarrow> string \<Rightarrow> string \<Rightarrow> string io" where
  "download_file w url destination_folder =
     bind_io (lift_io (py_index (split_sep CHR ''/'' url) (- 1))) (\<lambda>local_filename.
       let path = os_path_join destination_folder local_filename
       in bind_io (requests_get w url) (\<lambda>r.
          bind_io (raise_for_status r) (\<lambda>_.
          bind_io (open_wb w path) (\<lambda>_.
          bind_io (write_chunks path (iter_content r)) (\<lambda>_.
          return_io path)))))"

definition api_url :: "string \<Rightarrow> string \<Rightarrow> string" where
  "api_url owner repo = ''https://api.github.com/repos/'' @ owner @ ''/'' @ repo @ ''/releases/latest''"

text \<open>The loop over the assets of the release, leaving at the first match.\<close>

fun first_deb :: "asset list \<Rightarrow> string option" where
  "first_deb [] = None"
| "first_deb (a # as) =
     (if endswith (name a) ''.deb'' then Some (browser_download_url a) else first_deb as)"

definition get_latest_deb_release :: "world \<Rightarrow> string \<Rightarrow> string \<Rightarrow> string option io" where
  "get_latest_deb_release w owner repo =
     bind_io (requests_get w (api_url owner repo)) (\<lambda>response.
       if status_code response \<noteq> 200
       then bind_io (print_io ''Failed to fetch release data from GitHub API'') (\<lambda>_. return_io None)
       else return_io
              (first_deb (case assets (json response) of None \<Rightarrow> [] | Some as \<Rightarrow> as)))"

text \<open>The expression \<open>latest_deb_url.split('/')[-1].split('_')[1]\<close> of \<open>main\<close>.\<close>

definition latest_version :: "string \<Rightarrow> py_error + string" where
  "latest_version latest_deb_url =
     (case py_index (split_sep CHR ''/'' latest_deb_url) (- 1) of
        Inl e \<Rightarrow> Inl e
      | Inr segment \<Rightarrow> py_index (split_sep CHR ''_'' segment) 1)"

definition str_of_optional :: "string option \<Rightarrow> string" where
  "str_of_optional v = (case v of None \<Rightarrow> ''None'' | Some s \<Rightarrow> s)"

definition main :: "world \<Rightarrow> command \<Rightarrow> unit io" where
  "main w cmd =
     (let temp_dir = gettempdir w
      in if cmd = Install \<or> cmd = Update then
           bind_io (get_installed_version w) (\<lambda>installed_version.
             if cmd = Update \<and> installed_version = None
             then print_io ''Thorium is not installed. Use 'install' command to install it.''
             else
               bind_io (get_latest_deb_release w ''Alex313031'' ''Thorium'') (\<lambda>latest_deb_url.
                 if latest_deb_url = None \<or> latest_deb_url = Some []
                 then print_io ''No .deb release found''
                 else
                   bind_io (lift_io (latest_version (the latest_deb_url))) (\<lambda>latest.
                     if installed_version = Some latest
                     then print_io (''Latest version '' @ latest @ '' is already installed.'')
                     else
                       bind_io (if cmd = Update
                                then print_io (''Updating Thorium from version ''
                                       @ str_of_optional installed_version @ '' to '' @ latest @ ''...'')
                                else return_io ()) (\<lambda>_.
                       bind_io (print_io (''Latest .deb release URL: '' @ the latest_deb_url)) (\<lambda>_.
                       let destination_folder = ''/home/kai/projects/renew-thorium''
                       in bind_io (download_file w (the latest_deb_url) destination_folder) (\<lambda>downloaded_file.
                          bind_io (install_deb w downloaded_file) (\<lambda>_.
                          print_io (''Installed '' @ downloaded_file))))))))
         else if cmd = Remove then remove_package w ''thorium-browser''
         else return_io ())"

section \<open>Observations and concrete scenarios\<close>

text \<open>
  The paths of the file-system events of a trace, in order: what a run opened or wrote.
\<close>

fun file_paths :: "event list \<Rightarrow> string list" where
  "file_paths [] = []"
| "file_paths (Open_wb p # es) = p # file_paths es"
| "file_paths (Write p c # es) = p # file_paths es"
| "file_paths (e # es) = file_paths es"

text \<open>
  Concrete worlds for evaluating the script: the answer of the version probe, the exit
  statuses of the other commands (0 unless listed), the response of the release API and
  the response to any other request.
\<close>

definition scenario :: "proc_result \<Rightarrow> (string list \<times> int) list \<Rightarrow> response \<Rightarrow> response \<Rightarrow> world" where
  "scenario probe exits release package =
     \<lparr>proc = (\<lambda>tr cmd. if cmd = [''thorium-browser'', ''--version''] then probe
                       else Exited (case map_of exits cmd of None \<Rightarrow> 0 | Some rc \<Rightarrow> rc) []),
      http = (\<lambda>tr url. if url = api_url ''Alex313031'' ''Thorium'' then Response release
                       else Response package),
      can_open = (\<lambda>tr path. True),
      gettempdir = ''/tmp''\<rparr>"

definition deb_url :: string where
  "deb_url = ''https://github.com/Alex313031/Thorium/releases/download/M1/thorium-browser_1.2.3.4_amd64.deb''"

definition deb_path :: string where
  "deb_path = ''/home/kai/projects/renew-thorium/thorium-browser_1.2.3.4_amd64.deb''"

definition release_with_deb :: response where
  "release_with_deb =
     \<lparr>status_code = 200,
      json = \<lparr>assets = Some [\<lparr>name = ''notes.txt'', browser_download_url = ''https://github.com/notes.txt''\<rparr>,
                              \<lparr>name = ''thorium-browser_1.2.3.4_amd64.deb'', browser_download_url = deb_url\<rparr>]\<rparr>,
      iter_content = []\<rparr>"

definition release_without_deb :: response where
  "release_without_deb =
     \<lparr>status_code = 200,
      json = \<lparr>assets = Some [\<lparr>name = ''notes.txt'', browser_download_url = ''https://github.com/notes.txt''\<rparr>]\<rparr>,
      iter_content = []\<rparr>"

definition release_flat_name :: response where
  "release_flat_name =
     \<lparr>status_code = 200,
      json = \<lparr>assets = Some [\<lparr>name = ''thorium.deb'', browser_download_url = ''https://github.com/dl/thorium.deb''\<rparr>]\<rparr>,
      iter_content = []\<rparr>"

definition package_body :: response where
  "package_body = \<lparr>status_code = 200, json = \<lparr>assets = None\<rparr>, iter_content = [''ab'', ''c'']\<rparr>"

definition package_missing :: response where
  "package_missing = \<lparr>status_code = 404, json = \<lparr>assets = None\<rparr>, iter_content = []\<rparr>"

definition world_single_field :: world where
  "world_single_field = scenario (Exited 0 (''Thorium'' @ [CHR 0x0A])) [] release_with_deb package_body"

section \<open>The functions of the script, case by case\<close>

lemmas io_defs = return_io_def raise_io_def bind_io_def catch_io_def lift_io_def print_io_def

lemmas scenario_defs = scenario_def deb_url_def deb_path_def release_with_deb_def release_without_deb_def
  release_flat_name_def package_body_def package_missing_def api_url_def

lemma get_installed_version_unfold:
  "get_installed_version w tr =
     (case proc w tr [''thorium-browser'', ''--version''] of
        NotFound \<Rightarrow> (Inr None, tr @ [Run [''thorium-browser'', ''--version''], Print ''Thorium browser is not installed.''])
      | Exited rc out \<Rightarrow>
          if rc \<noteq> 0
          then (Inr None, tr @ [Run [''thorium-browser'', ''--version''],
                  Print ''Thorium browser is not installed or unable to get version.''])
          else if \<not> startswith (strip out) ''Thorium''
          then (Inr None, tr @ [Run [''thorium-browser'', ''--version'']])
          else if length (split_ws (strip out)) < 2
          then (Inl IndexError, tr @ [Run [''thorium-browser'', ''--version'']])
          else (Inr (Some (split_ws (strip out) ! 1)), tr @ [Run [''thorium-browser'', ''--version'']]))"
  by (simp add: get_installed_version_def subprocess_run_def io_defs Let_def split: proc_result.splits)

lemma install_deb_unfold:
  "install_deb w p tr =
     (case proc w tr [''sudo'', ''nala'', ''install'', p] of
        NotFound \<Rightarrow> (Inl FileNotFoundError, tr @ [Run [''sudo'', ''nala'', ''install'', p]])
      | Exited rc out \<Rightarrow>
          if rc = 0 then (Inr (), tr @ [Run [''sudo'', ''nala'', ''install'', p]])
          else bind_io (subprocess_run w [''sudo'', ''dpkg'', ''-i'', p]) (\<lambda>_.
               bind_io (subprocess_run w [''sudo'', ''nala'', ''install'', ''-f'']) (\<lambda>_. return_io ()))
                 (tr @ [Run [''sudo'', ''nala'', ''install'', p],
                        Print ''Nala failed to install the package. Attempting with dpkg...'']))"
  by (simp add: install_deb_def subprocess_run_def io_defs split: proc_result.splits)

lemma split_sep_nonempty: "split_sep c s \<noteq> []"
  by (induction s) (auto split: list.splits)

lemma length_split_sep: "length (split_sep c s) = Suc (length (filter (\<lambda>x. x = c) s))"
  by (induction s) (auto split: list.splits simp: split_sep_nonempty)

lemma split_sep_free: "f \<in> set (split_sep c s) \<Longrightarrow> c \<notin> set f"
  by (induction s arbitrary: f) (auto split: list.splits if_splits)

lemma py_index_last: "xs \<noteq> [] \<Longrightarrow> py_index xs (- 1) = Inr (last xs)"
  by (cases xs rule: rev_cases) (auto simp: nth_append)

lemma last_segment_free: "CHR ''/'' \<notin> set (last (split_sep CHR ''/'' url))"
  using split_sep_free [of "last (split_sep CHR ''/'' url)" "CHR ''/''" url] split_sep_nonempty [of "CHR ''/''" url]
  by simp

lemma length_split_sep_ge2: "2 \<le> length (split_sep c s) \<longleftrightarrow> c \<in> set s"
proof -
  have "filter (\<lambda>x. x = c) s \<noteq> [] \<longleftrightarrow> c \<in> set s"
    by (auto simp: filter_empty_conv)
  then show ?thesis
    by (cases "filter (\<lambda>x. x = c) s") (auto simp: length_split_sep)
qed

lemma latest_version_unfold:
  "latest_version url =
     (if CHR ''_'' \<in> set (last (split_sep CHR ''/'' url))
      then Inr (split_sep CHR ''_'' (last (split_sep CHR ''/'' url)) ! 1)
      else Inl IndexError)"
  using length_split_sep_ge2 [of "CHR ''_''" "last (split_sep CHR ''/'' url)"]
  by (auto simp: latest_version_def py_index_last split_sep_nonempty simp del: py_index.simps)
     (simp_all)

lemma os_path_join_segment:
  "d \<noteq> [] \<Longrightarrow> \<not> endswith d ''/'' \<Longrightarrow>
   os_path_join d (last (split_sep CHR ''/'' url)) = d @ ''/'' @ last (split_sep CHR ''/'' url)"
  using last_segment_free [of url]
  by (cases "last (split_sep CHR ''/'' url)") (auto simp: os_path_join_def startswith_def)

lemma write_chunks_trace: "write_chunks path chunks tr = (Inr (), tr @ map (Write path) chunks)"
  by (induction chunks arbitrary: tr) (simp_all add: io_defs)

lemma download_file_unfold:
  "download_file w url d tr =
     (case http w tr url of
        NoConnection \<Rightarrow> (Inl ConnectionError, tr @ [Get url])
      | Response r \<Rightarrow>
          if 400 \<le> status_code r \<and> status_code r < 600
          then (Inl (HTTPError (status_code r)), tr @ [Get url])
          else if \<not> can_open w (tr @ [Get url]) (os_path_join d (last (split_sep CHR ''/'' url)))
          then (Inl OSError, tr @ [Get url, Open_wb (os_path_join d (last (split_sep CHR ''/'' url)))])
          else (Inr (os_path_join d (last (split_sep CHR ''/'' url))),
                tr @ [Get url, Open_wb (os_path_join d (last (split_sep CHR ''/'' url)))]
                   @ map (Write (os_path_join d (last (split_sep CHR ''/'' url)))) (iter_content r)))"
  by (simp add: download_file_def py_index_last split_sep_nonempty requests_get_def raise_for_status_def
        open_wb_def write_chunks_trace io_defs Let_def del: py_index.simps split: http_result.splits)

lemma get_latest_deb_release_unfold:
  "get_latest_deb_release w owner repo tr =
     (case http w tr (api_url owner repo) of
        NoConnection \<Rightarrow> (Inl ConnectionError, tr @ [Get (api_url owner repo)])
      | Response r \<Rightarrow>
          if status_code r \<noteq> 200
          then (Inr None, tr @ [Get (api_url owner repo), Print ''Failed to fetch release data from GitHub API''])
          else (Inr (first_deb (case assets (json r) of None \<Rightarrow> [] | Some as \<Rightarrow> as)),
                tr @ [Get (api_url owner repo)]))"
  by (simp add: get_latest_deb_release_def requests_get_def io_defs split: http_result.splits)

lemma first_deb_find:
  "first_deb as = map_option browser_download_url (find (\<lambda>a. endswith (name a) ''.deb'') as)"
  by (induction as) simp_all

lemma remove_package_unfold:
  "remove_package w n tr =
     (case proc w tr [''sudo'', ''nala'', ''remove'', n] of
        NotFound \<Rightarrow> (Inl FileNotFoundError, tr @ [Run [''sudo'', ''nala'', ''remove'', n]])
      | Exited rc out \<Rightarrow>
          if rc = 0 then (Inr (), tr @ [Run [''sudo'', ''nala'', ''remove'', n]])
          else bind_io (subprocess_run w [''sudo'', ''dpkg'', ''-r'', n]) (\<lambda>_. return_io ())
                 (tr @ [Run [''sudo'', ''nala'', ''remove'', n],
                        Print ''Nala failed to remove the package. Attempting with dpkg...'']))"
  by (simp add: remove_package_def subprocess_run_def io_defs split: proc_result.splits)

lemma main_remove: "main w Remove tr = remove_package w ''thorium-browser'' tr"
  by (simp add: main_def)

lemma main_not_installed:
  "get_installed_version w tr = (Inr None, tr1) \<Longrightarrow>
   main w Update tr = (Inr (), tr1 @ [Print ''Thorium is not installed. Use 'install' command to install it.''])"
  by (simp add: main_def io_defs)

lemma main_no_release:
  assumes "cmd \<noteq> Remove" "get_installed_version w tr = (Inr iv, tr1)" "\<not> (cmd = Update \<and> iv = None)"
    and "get_latest_deb_release w ''Alex313031'' ''Thorium'' tr1 = (Inr u, tr2)" "u = None \<or> u = Some []"
  shows "main w cmd tr = (Inr (), tr2 @ [Print ''No .deb release found''])"
  using assms by (cases cmd) (auto simp: main_def io_defs)

lemma main_resolved:
  assumes "cmd \<noteq> Remove" "get_installed_version w tr = (Inr iv, tr1)" "\<not> (cmd = Update \<and> iv = None)"
    and "get_latest_deb_release w ''Alex313031'' ''Thorium'' tr1 = (Inr (Some url), tr2)" "url \<noteq> []"
  shows "main w cmd tr =
     (case latest_version url of
        Inl e \<Rightarrow> (Inl e, tr2)
      | Inr latest \<Rightarrow>
          if iv = Some latest
          then (Inr (), tr2 @ [Print (''Latest version '' @ latest @ '' is already installed.'')])
          else bind_io (download_file w url ''/home/kai/projects/renew-thorium'') (\<lambda>f.
               bind_io (install_deb w f) (\<lambda>_. print_io (''Installed '' @ f)))
                 (tr2 @ (if cmd = Update
                         then [Print (''Updating Thorium from version '' @ str_of_optional iv @ '' to '' @ latest @ ''...'')]
                         else [])
                      @ [Print (''Latest .deb release URL: '' @ url)]))"
  using assms by (cases cmd) (auto simp: main_def io_defs split: sum.splits)

lemma file_paths_append [simp]: "file_paths (xs @ ys) = file_paths xs @ file_paths ys"
  by (induction xs rule: file_paths.induct) simp_all

lemma file_paths_writes [simp]: "file_paths (map (Write p) cs) = replicate (length cs) p"
  by (induction cs) simp_all

lemma probe_trace:
  assumes "get_installed_version w tr = (r, tr1)"
  shows "tr1 = tr @ [Run [''thorium-browser'', ''--version'']]
       \<or> r = Inr None \<and> tr1 = tr @ [Run [''thorium-browser'', ''--version''], Print ''Thorium browser is not installed.'']
       \<or> r = Inr None \<and> tr1 = tr @ [Run [''thorium-browser'', ''--version''],
                                        Print ''Thorium browser is not installed or unable to get version.'']"
  using assms by (auto simp: get_installed_version_unfold split: proc_result.splits if_splits)

lemma probe_trace_Some:
  "get_installed_version w tr = (Inr (Some v), tr1) \<Longrightarrow> tr1 = tr @ [Run [''thorium-browser'', ''--version'']]"
  using probe_trace [of w tr "Inr (Some v)" tr1] by simp

lemma resolver_trace_Some:
  "get_latest_deb_release w owner repo tr = (Inr (Some url), tr2) \<Longrightarrow> tr2 = tr @ [Get (api_url owner repo)]"
  by (auto simp: get_latest_deb_release_unfold split: http_result.splits if_splits)

lemma latest_version_nonempty: "latest_version url = Inr v \<Longrightarrow> url \<noteq> []"
  by (auto simp: latest_version_def)

lemma subprocess_run_file_paths: "file_paths (snd (subprocess_run w cmd tr)) = file_paths tr"
  by (simp add: subprocess_run_def split: proc_result.splits)








lemma destination_join:
  "os_path_join ''/home/kai/projects/renew-thorium'' (last (split_sep CHR ''/'' url))
     = ''/home/kai/projects/renew-thorium/'' @ last (split_sep CHR ''/'' url)"
  using os_path_join_segment [of "''/home/kai/projects/renew-thorium''" url]
  by (simp add: endswith_def suffix_to_prefix)

lemma main_download:
  assumes "cmd = Install \<or> cmd = Update"
    and "get_installed_version w [] = (Inr iv, tr1)" "\<not> (cmd = Update \<and> iv = None)"
    and "get_latest_deb_release w ''Alex313031'' ''Thorium'' tr1 = (Inr (Some url), tr2)"
    and "latest_version url = Inr latest" "iv \<noteq> Some latest"
  shows "main w cmd [] =
           bind_io (download_file w url ''/home/kai/projects/renew-thorium'') (\<lambda>f.
           bind_io (install_deb w f) (\<lambda>_. print_io (''Installed '' @ f)))
             (tr2 @ (if cmd = Update
                     then [Print (''Updating Thorium from version '' @ str_of_optional iv @ '' to '' @ latest @ ''...'')]
                     else [])
                  @ [Print (''Latest .deb release URL: '' @ url)])"
proof -
  have "cmd \<noteq> Remove" using assms(1) by auto
  then show ?thesis
    using main_resolved [OF _ assms(2,3,4) latest_version_nonempty [OF assms(5)]] assms(5,6) by simp
qed

lemma scenario_not_installed:
  "get_installed_version (scenario NotFound exits release package) tr =
     (Inr None, tr @ [Run [''thorium-browser'', ''--version''], Print ''Thorium browser is not installed.''])"
  by (simp add: get_installed_version_unfold scenario_def)

lemma scenario_release_with_deb:
  "get_latest_deb_release (scenario probe exits release_with_deb package) ''Alex313031'' ''Thorium'' tr =
     (Inr (Some deb_url), tr @ [Get (api_url ''Alex313031'' ''Thorium'')])"
  by (simp add: get_latest_deb_release_unfold scenario_def release_with_deb_def endswith_def suffix_to_prefix)

lemma latest_version_deb_url: "latest_version deb_url = Inr ''1.2.3.4''"
  by (simp add: latest_version_def deb_url_def)

lemma last_segment_deb_url: "last (split_sep CHR ''/'' deb_url) = ''thorium-browser_1.2.3.4_amd64.deb''"
  by (simp add: deb_url_def)

lemma deb_url_not_api: "deb_url \<noteq> api_url ''Alex313031'' ''Thorium''"
  by (simp add: deb_url_def api_url_def)

lemma scenario_download:
  "download_file (scenario probe exits release package) deb_url ''/home/kai/projects/renew-thorium'' tr =
     (if 400 \<le> status_code package \<and> status_code package < 600
      then (Inl (HTTPError (status_code package)), tr @ [Get deb_url])
      else (Inr deb_path, tr @ [Get deb_url, Open_wb deb_path] @ map (Write deb_path) (iter_content package)))"
  by (simp add: download_file_unfold destination_join deb_url_not_api scenario_def)
     (simp add: last_segment_deb_url deb_path_def)


lemma install_deb_prints:
  "Print s \<in> set (snd (install_deb w p tr)) \<Longrightarrow>
   Print s \<in> set tr \<or> s = ''Nala failed to install the package. Attempting with dpkg...''"
  by (auto simp: install_deb_unfold subprocess_run_def io_defs split: proc_result.splits if_splits)

lemma download_file_prints:
  "Print s \<in> set (snd (download_file w url d tr)) \<Longrightarrow> Print s \<in> set tr"
  by (auto simp: download_file_unfold split: http_result.splits if_splits)

lemma download_then_install_prints:
  assumes "Print s \<in> set (snd (bind_io (download_file w url d) (\<lambda>f. bind_io (install_deb w f) (\<lambda>_. print_io (m f))) tr))"
  shows "Print s \<in> set tr \<or> s = ''Nala failed to install the package. Attempting with dpkg...''
       \<or> (\<exists>f. s = m f)"
proof (cases "download_file w url d tr")
  case (Pair r tr3)
  have d: "Print s \<in> set tr3 \<Longrightarrow> Print s \<in> set tr"
    using download_file_prints [of s w url d tr] Pair by simp
  show ?thesis
  proof (cases r)
    case (Inl e)
    with Pair assms d show ?thesis by (simp add: bind_io_def)
  next
    case (Inr f)
    obtain r4 tr4 where i: "install_deb w f tr3 = (r4, tr4)" by (cases "install_deb w f tr3")
    have "Print s \<in> set tr4 \<Longrightarrow> Print s \<in> set tr3 \<or> s = ''Nala failed to install the package. Attempting with dpkg...''"
      using install_deb_prints [of s w f tr3] i by simp
    with Pair Inr i d assms show ?thesis
      by (cases r4) (auto simp: bind_io_def print_io_def)
  qed
qed


section \<open>The claims\<close>

text \<open>
  C1. For the install and update commands, when the version the prober returns is exactly
  the version token extracted from the resolved asset URL, the dispatcher prints the
  "already installed" message and returns: the run consists of the probe, the request to
  the release API and that message, so neither the downloader nor the installer is called.
\<close>

theorem main_already_installed:
  assumes "cmd = Install \<or> cmd = Update"
    and "get_installed_version w [] = (Inr (Some v), tr1)"
    and "get_latest_deb_release w ''Alex313031'' ''Thorium'' tr1 = (Inr (Some url), tr2)"
    and "latest_version url = Inr v"
  shows "main w cmd [] =
           (Inr (), [Run [''thorium-browser'', ''--version''],
                     Get (api_url ''Alex313031'' ''Thorium''),
                     Print (''Latest version '' @ v @ '' is already installed.'')])"
proof -
  have t1: "tr1 = [Run [''thorium-browser'', ''--version'']]"
    using probe_trace_Some [OF assms(2)] by simp
  have t2: "tr2 = [Run [''thorium-browser'', ''--version''], Get (api_url ''Alex313031'' ''Thorium'')]"
    using resolver_trace_Some [OF assms(3)] t1 by simp
  have "cmd \<noteq> Remove" using assms(1) by auto
  then show ?thesis
    using main_resolved [OF _ assms(2) _ assms(3) latest_version_nonempty [OF assms(4)]] assms(4) t2
    by simp
qed

theorem main_already_installed_witness:
  "main (scenario (Exited 0 (''Thorium 1.2.3.4'' @ [CHR 0x0A])) [] release_with_deb package_body) Update [] =
     (Inr (), [Run [''thorium-browser'', ''--version''],
               Get (api_url ''Alex313031'' ''Thorium''),
               Print ''Latest version 1.2.3.4 is already installed.''])"
  using main_already_installed [of Update "scenario (Exited 0 (''Thorium 1.2.3.4'' @ [CHR 0x0A])) [] release_with_deb package_body"
      "''1.2.3.4''" "[Run [''thorium-browser'', ''--version'']]" deb_url
      "[Run [''thorium-browser'', ''--version''], Get (api_url ''Alex313031'' ''Thorium'')]"]
  by (simp add: get_installed_version_unfold get_latest_deb_release_unfold latest_version_def scenario_defs
        startswith_def endswith_def suffix_to_prefix strip_def split_ws_def isspace_def)

text \<open>
  C2. For the update command, when the version prober returns None, the dispatcher prints
  "Thorium is not installed. Use 'install' command to install it." and returns. The run is
  the probe, at most one message of the prober, and that message: no request is sent and
  no package command is run.
\<close>

theorem main_update_not_installed:
  assumes "get_installed_version w [] = (Inr None, tr1)"
  shows "main w Update [] =
           (Inr (), tr1 @ [Print ''Thorium is not installed. Use 'install' command to install it.''])
       \<and> tr1 \<in> {[Run [''thorium-browser'', ''--version'']],
                 [Run [''thorium-browser'', ''--version''], Print ''Thorium browser is not installed.''],
                 [Run [''thorium-browser'', ''--version''],
                  Print ''Thorium browser is not installed or unable to get version.'']}"
  using main_not_installed [OF assms] probe_trace [OF assms] by auto

theorem main_update_not_installed_witness:
  "main (scenario NotFound [] release_with_deb package_body) Update [] =
     (Inr (), [Run [''thorium-browser'', ''--version''], Print ''Thorium browser is not installed.'',
               Print ''Thorium is not installed. Use 'install' command to install it.''])"
  using main_update_not_installed [of "scenario NotFound [] release_with_deb package_body"
      "[Run [''thorium-browser'', ''--version''], Print ''Thorium browser is not installed.'']"]
  by (simp add: get_installed_version_unfold scenario_defs)

text \<open>
  C3. For every response of the release API, the release resolver returns the download URL
  of the first asset, in listed order, whose name ends in ".deb"; it returns None when the
  status is not 200 or when no asset name has that suffix. When the resolver returns None,
  the dispatcher prints "No .deb release found" and returns.
\<close>

theorem get_latest_deb_release_first_deb:
  assumes "http w tr (api_url owner repo) = Response r"
  shows "get_latest_deb_release w owner repo tr =
           (Inr (if status_code r \<noteq> 200 then None
                 else map_option browser_download_url
                        (find (\<lambda>a. endswith (name a) ''.deb'')
                           (case assets (json r) of None \<Rightarrow> [] | Some as \<Rightarrow> as))),
            tr @ [Get (api_url owner repo)]
               @ (if status_code r \<noteq> 200 then [Print ''Failed to fetch release data from GitHub API''] else []))
       \<and> ((cmd = Install \<or> cmd = Update) \<and> owner = ''Alex313031'' \<and> repo = ''Thorium''
            \<and> get_installed_version w [] = (Inr iv, tr) \<and> \<not> (cmd = Update \<and> iv = None)
            \<and> fst (get_latest_deb_release w owner repo tr) = Inr None
          \<longrightarrow> main w cmd [] = (Inr (), snd (get_latest_deb_release w owner repo tr) @ [Print ''No .deb release found'']))"
proof -
  have a: "get_latest_deb_release w owner repo tr =
           (Inr (if status_code r \<noteq> 200 then None
                 else map_option browser_download_url
                        (find (\<lambda>a. endswith (name a) ''.deb'')
                           (case assets (json r) of None \<Rightarrow> [] | Some as \<Rightarrow> as))),
            tr @ [Get (api_url owner repo)]
               @ (if status_code r \<noteq> 200 then [Print ''Failed to fetch release data from GitHub API''] else []))"
    using assms by (simp add: get_latest_deb_release_unfold first_deb_find)
  have b: "main w cmd [] = (Inr (), snd (get_latest_deb_release w owner repo tr) @ [Print ''No .deb release found''])"
    if "cmd = Install \<or> cmd = Update" "owner = ''Alex313031''" "repo = ''Thorium''"
      "get_installed_version w [] = (Inr iv, tr)" "\<not> (cmd = Update \<and> iv = None)"
      "fst (get_latest_deb_release w owner repo tr) = Inr None"
  proof -
    have "cmd \<noteq> Remove" using that(1) by auto
    moreover have "get_latest_deb_release w ''Alex313031'' ''Thorium'' tr
        = (Inr None, snd (get_latest_deb_release w owner repo tr))"
      using that(2,3,6) by (cases "get_latest_deb_release w owner repo tr") simp
    ultimately show ?thesis
      using main_no_release [of cmd w "[]" iv tr None] that(4,5) by simp
  qed
  from a b show ?thesis by blast
qed

theorem get_latest_deb_release_first_deb_witness:
  "get_latest_deb_release (scenario NotFound [] release_with_deb package_body) ''Alex313031'' ''Thorium'' [] =
     (Inr (Some deb_url), [Get (api_url ''Alex313031'' ''Thorium'')])
   \<and> main (scenario NotFound [] release_without_deb package_body) Install [] =
     (Inr (), [Run [''thorium-browser'', ''--version''], Print ''Thorium browser is not installed.'',
               Get (api_url ''Alex313031'' ''Thorium''), Print ''No .deb release found''])"
  using get_latest_deb_release_first_deb [of "scenario NotFound [] release_with_deb package_body" "[]"
      "''Alex313031''" "''Thorium''" release_with_deb Install None]
    get_latest_deb_release_first_deb [of "scenario NotFound [] release_without_deb package_body"
      "[Run [''thorium-browser'', ''--version''], Print ''Thorium browser is not installed.'']"
      "''Alex313031''" "''Thorium''" release_without_deb Install None]
  by (simp add: get_installed_version_unfold scenario_defs endswith_def suffix_to_prefix)

text \<open>
  C4. The version prober does not return None on every output without a second field:
  the output "Thorium" followed by a newline starts with the product name and has one
  field, and there the index \<open>[1]\<close> raises IndexError, which neither handler catches.
\<close>

theorem get_installed_version_single_field_raises:
  "get_installed_version world_single_field [] = (Inl IndexError, [Run [''thorium-browser'', ''--version'']])"
  by (simp add: get_installed_version_unfold world_single_field_def scenario_defs startswith_def strip_def
        split_ws_def isspace_def)

text \<open>
  C5. The fix-broken-dependencies invocation follows the force-install only when the
  force-install succeeds, so the property holds in this form: if the primary
  install invocation exits with a non-zero status, the installer invokes the low-level
  tool's force-install on the same file path exactly once, directly after the primary
  invocation, and, when that force-install exits with status 0, exactly one invocation of
  the primary manager's fix-broken-dependencies mode follows it and nothing else; if the
  primary invocation succeeds, it is the only invocation.
\<close>

theorem install_deb_fallback:
  "(proc w tr [''sudo'', ''nala'', ''install'', p] = Exited 0 out
      \<longrightarrow> install_deb w p tr = (Inr (), tr @ [Run [''sudo'', ''nala'', ''install'', p]]))
   \<and> (proc w tr [''sudo'', ''nala'', ''install'', p] = Exited rc out \<and> rc \<noteq> 0
      \<longrightarrow> prefix (tr @ [Run [''sudo'', ''nala'', ''install'', p],
                         Print ''Nala failed to install the package. Attempting with dpkg...'',
                         Run [''sudo'', ''dpkg'', ''-i'', p]])
                 (snd (install_deb w p tr))
        \<and> (proc w (tr @ [Run [''sudo'', ''nala'', ''install'', p],
                          Print ''Nala failed to install the package. Attempting with dpkg...''])
               [''sudo'', ''dpkg'', ''-i'', p] = Exited 0 out'
            \<longrightarrow> snd (install_deb w p tr) =
                  tr @ [Run [''sudo'', ''nala'', ''install'', p],
                        Print ''Nala failed to install the package. Attempting with dpkg...'',
                        Run [''sudo'', ''dpkg'', ''-i'', p],
                        Run [''sudo'', ''nala'', ''install'', ''-f'']]))"
  by (auto simp: install_deb_unfold subprocess_run_def io_defs prefix_def split: proc_result.splits)

theorem install_deb_fallback_witness:
  "install_deb (scenario NotFound [([''sudo'', ''nala'', ''install'', deb_path], 100)] release_with_deb package_body)
       deb_path [] =
     (Inr (), [Run [''sudo'', ''nala'', ''install'', deb_path],
               Print ''Nala failed to install the package. Attempting with dpkg...'',
               Run [''sudo'', ''dpkg'', ''-i'', deb_path],
               Run [''sudo'', ''nala'', ''install'', ''-f'']])
   \<and> install_deb (scenario NotFound [] release_with_deb package_body) deb_path [] =
     (Inr (), [Run [''sudo'', ''nala'', ''install'', deb_path]])"
  using install_deb_fallback [of "scenario NotFound [([''sudo'', ''nala'', ''install'', deb_path], 100)] release_with_deb package_body"
      "[]" deb_path "[]" 100 "[]"]
    install_deb_fallback [of "scenario NotFound [] release_with_deb package_body" "[]" deb_path "[]" 0 "[]"]
  by (simp add: scenario_defs install_deb_unfold subprocess_run_def io_defs)

text \<open>
  The input at which C5 fails as it is written: the primary invocation exits with status
  100 and the force-install with status 2; the installer raises after the force-install,
  and no fix-broken-dependencies invocation is in the trace.
\<close>

theorem install_deb_fallback_counterexample:
  "proc (scenario NotFound [([''sudo'', ''nala'', ''install'', deb_path], 100), ([''sudo'', ''dpkg'', ''-i'', deb_path], 2)]
           release_with_deb package_body) [] [''sudo'', ''nala'', ''install'', deb_path] = Exited 100 []
   \<and> install_deb (scenario NotFound [([''sudo'', ''nala'', ''install'', deb_path], 100), ([''sudo'', ''dpkg'', ''-i'', deb_path], 2)]
           release_with_deb package_body) deb_path [] =
       (Inl (CalledProcessError 2 [''sudo'', ''dpkg'', ''-i'', deb_path]),
        [Run [''sudo'', ''nala'', ''install'', deb_path],
         Print ''Nala failed to install the package. Attempting with dpkg...'',
         Run [''sudo'', ''dpkg'', ''-i'', deb_path]])
   \<and> Run [''sudo'', ''nala'', ''install'', ''-f'']
       \<notin> set (snd (install_deb (scenario NotFound [([''sudo'', ''nala'', ''install'', deb_path], 100),
                                                    ([''sudo'', ''dpkg'', ''-i'', deb_path], 2)]
                                   release_with_deb package_body) deb_path []))"
  by (simp add: install_deb_unfold subprocess_run_def io_defs scenario_defs)

text \<open>
  C6. The remove command starts with the primary package manager's remove on the package
  name "thorium-browser", with no probe of the installed version before it; when that
  invocation exits with a non-zero status, exactly one invocation of the low-level tool's
  remove mode on the same name follows, and nothing else.
\<close>

theorem main_remove_fallback:
  "prefix [Run [''sudo'', ''nala'', ''remove'', ''thorium-browser'']] (snd (main w Remove []))
   \<and> (proc w [] [''sudo'', ''nala'', ''remove'', ''thorium-browser''] = Exited rc out \<and> rc \<noteq> 0
      \<longrightarrow> snd (main w Remove []) =
            [Run [''sudo'', ''nala'', ''remove'', ''thorium-browser''],
             Print ''Nala failed to remove the package. Attempting with dpkg...'',
             Run [''sudo'', ''dpkg'', ''-r'', ''thorium-browser'']])"
  by (auto simp: main_remove remove_package_unfold subprocess_run_def io_defs prefix_def split: proc_result.splits)

theorem main_remove_fallback_witness:
  "main (scenario NotFound [([''sudo'', ''nala'', ''remove'', ''thorium-browser''], 1)] release_with_deb package_body) Remove [] =
     (Inr (), [Run [''sudo'', ''nala'', ''remove'', ''thorium-browser''],
               Print ''Nala failed to remove the package. Attempting with dpkg...'',
               Run [''sudo'', ''dpkg'', ''-r'', ''thorium-browser'']])"
  using main_remove_fallback [of "scenario NotFound [([''sudo'', ''nala'', ''remove'', ''thorium-browser''], 1)] release_with_deb package_body" 1 "[]"]
  by (simp add: scenario_defs main_remove remove_package_unfold subprocess_run_def io_defs)

text \<open>
  C7. The extraction of the latest version from the asset URL is unguarded: for every
  resolved, non-empty URL whose final path segment contains no underscore, the index
  \<open>[1]\<close> after the split on the underscore raises IndexError, and the dispatcher
  raises it too, directly after the release resolution, with no message printed.
\<close>

theorem main_latest_version_unguarded:
  assumes "cmd = Install \<or> cmd = Update"
    and "get_installed_version w [] = (Inr iv, tr1)" "\<not> (cmd = Update \<and> iv = None)"
    and "get_latest_deb_release w ''Alex313031'' ''Thorium'' tr1 = (Inr (Some url), tr2)" "url \<noteq> []"
    and "CHR ''_'' \<notin> set (last (split_sep CHR ''/'' url))"
  shows "latest_version url = Inl IndexError \<and> main w cmd [] = (Inl IndexError, tr2)"
proof -
  have "cmd \<noteq> Remove" using assms(1) by auto
  moreover have "latest_version url = Inl IndexError"
    using assms(6) by (simp add: latest_version_unfold)
  ultimately show ?thesis
    using main_resolved [OF _ assms(2,3,4,5)] by simp
qed

theorem main_latest_version_unguarded_witness:
  "main (scenario NotFound [] release_flat_name package_body) Install [] =
     (Inl IndexError,
      [Run [''thorium-browser'', ''--version''], Print ''Thorium browser is not installed.'',
       Get (api_url ''Alex313031'' ''Thorium'')])"
  using main_latest_version_unguarded [of Install "scenario NotFound [] release_flat_name package_body" None
      "[Run [''thorium-browser'', ''--version''], Print ''Thorium browser is not installed.'']"
      "''https://github.com/dl/thorium.deb''"
      "[Run [''thorium-browser'', ''--version''], Print ''Thorium browser is not installed.'',
       Get (api_url ''Alex313031'' ''Thorium'')]"]
  by (simp add: get_installed_version_unfold get_latest_deb_release_unfold scenario_defs endswith_def suffix_to_prefix)



text \<open>
  C9. The install step follows the download only when the download returns a file, so the
  property holds in this form: for the install command, when the version prober
  returns None and a .deb asset URL is resolved from which a version token is extracted,
  the comparison with that token never succeeds (the "already installed" message is never
  printed), so the run continues with the download of that URL, and whenever the
  downloader returns a file, the installer is invoked on it.
\<close>

theorem main_install_proceeds:
  assumes "get_installed_version w [] = (Inr None, tr1)"
    and "get_latest_deb_release w ''Alex313031'' ''Thorium'' tr1 = (Inr (Some url), tr2)"
    and "latest_version url = Inr latest"
  shows "main w Install [] =
           bind_io (download_file w url ''/home/kai/projects/renew-thorium'') (\<lambda>f.
           bind_io (install_deb w f) (\<lambda>_. print_io (''Installed '' @ f)))
             (tr2 @ [Print (''Latest .deb release URL: '' @ url)])
       \<and> Get url \<in> set (snd (main w Install []))
       \<and> (fst (download_file w url ''/home/kai/projects/renew-thorium''
                 (tr2 @ [Print (''Latest .deb release URL: '' @ url)])) = Inr f
            \<longrightarrow> Run [''sudo'', ''nala'', ''install'', f] \<in> set (snd (main w Install [])))
       \<and> Print (''Latest version '' @ latest @ '' is already installed.'') \<notin> set (snd (main w Install []))"
proof -
  let ?before = "tr2 @ [Print (''Latest .deb release URL: '' @ url)]"
  have m: "main w Install [] =
           bind_io (download_file w url ''/home/kai/projects/renew-thorium'') (\<lambda>f.
           bind_io (install_deb w f) (\<lambda>_. print_io (''Installed '' @ f))) ?before"
    using main_download [OF _ assms(1) _ assms(2,3)] by simp
  have g: "Get url \<in> set (snd (main w Install []))"
    unfolding m
    by (auto simp: download_file_unfold install_deb_unfold subprocess_run_def io_defs
        split: http_result.splits proc_result.splits)
  have r: "Run [''sudo'', ''nala'', ''install'', f] \<in> set (snd (main w Install []))"
    if "fst (download_file w url ''/home/kai/projects/renew-thorium'' ?before) = Inr f"
    using that unfolding m
    by (cases "download_file w url ''/home/kai/projects/renew-thorium'' ?before")
       (auto simp: install_deb_unfold subprocess_run_def io_defs split: proc_result.splits)
  have t2: "tr2 = tr1 @ [Get (api_url ''Alex313031'' ''Thorium'')]"
    by (rule resolver_trace_Some [OF assms(2)])
  have b: "Print (''Latest version '' @ latest @ '' is already installed.'') \<notin> set ?before"
    using probe_trace [OF assms(1)] unfolding t2 by auto
  have n: "Print (''Latest version '' @ latest @ '' is already installed.'') \<notin> set (snd (main w Install []))"
  proof
    assume "Print (''Latest version '' @ latest @ '' is already installed.'') \<in> set (snd (main w Install []))"
    from download_then_install_prints [OF this [unfolded m]] b show False by simp
  qed
  from m g r n show ?thesis by blast
qed

theorem main_install_proceeds_witness:
  "Get deb_url \<in> set (snd (main (scenario NotFound [] release_with_deb package_body) Install []))
   \<and> Run [''sudo'', ''nala'', ''install'', deb_path]
       \<in> set (snd (main (scenario NotFound [] release_with_deb package_body) Install []))
   \<and> Print ''Latest version 1.2.3.4 is already installed.''
       \<notin> set (snd (main (scenario NotFound [] release_with_deb package_body) Install []))"
proof -
  let ?w = "scenario NotFound [] release_with_deb package_body"
  let ?tr1 = "[Run [''thorium-browser'', ''--version''], Print ''Thorium browser is not installed.'']"
  have p: "get_installed_version ?w [] = (Inr None, ?tr1)"
    by (simp add: scenario_not_installed)
  have q: "get_latest_deb_release ?w ''Alex313031'' ''Thorium'' ?tr1 =
             (Inr (Some deb_url), ?tr1 @ [Get (api_url ''Alex313031'' ''Thorium'')])"
    by (rule scenario_release_with_deb)
  have d: "fst (download_file ?w deb_url ''/home/kai/projects/renew-thorium''
                 ((?tr1 @ [Get (api_url ''Alex313031'' ''Thorium'')])
                    @ [Print (''Latest .deb release URL: '' @ deb_url)])) = Inr deb_path"
    by (simp add: scenario_download package_body_def)
  have "Get deb_url \<in> set (snd (main ?w Install []))
      \<and> Run [''sudo'', ''nala'', ''install'', deb_path] \<in> set (snd (main ?w Install []))
      \<and> Print (''Latest version '' @ ''1.2.3.4'' @ '' is already installed.'')
          \<notin> set (snd (main ?w Install []))"
    using main_install_proceeds [OF p q latest_version_deb_url, where f = deb_path] d
    by blast
  then show ?thesis
    by simp
qed

text \<open>
  The input at which C9 fails as it is written: the prober returns None and the resolver
  the asset URL, and the request for the package is answered with status 404; the
  downloader raises, and the run ends with no package command in its trace.
\<close>

theorem main_install_proceeds_counterexample:
  "get_installed_version (scenario NotFound [] release_with_deb package_missing) [] =
     (Inr None, [Run [''thorium-browser'', ''--version''], Print ''Thorium browser is not installed.''])
   \<and> get_latest_deb_release (scenario NotFound [] release_with_deb package_missing) ''Alex313031'' ''Thorium''
       [Run [''thorium-browser'', ''--version''], Print ''Thorium browser is not installed.''] =
     (Inr (Some deb_url),
      [Run [''thorium-browser'', ''--version''], Print ''Thorium browser is not installed.'',
       Get (api_url ''Alex313031'' ''Thorium'')])
   \<and> main (scenario NotFound [] release_with_deb package_missing) Install [] =
     (Inl (HTTPError 404),
      [Run [''thorium-browser'', ''--version''], Print ''Thorium browser is not installed.'',
       Get (api_url ''Alex313031'' ''Thorium''),
       Print (''Latest .deb release URL: '' @ deb_url),
       Get deb_url])
   \<and> Run [''sudo'', ''nala'', ''install'', deb_path]
       \<notin> set (snd (main (scenario NotFound [] release_with_deb package_missing) Install []))"
proof -
  let ?w = "scenario NotFound [] release_with_deb package_missing"
  let ?tr1 = "[Run [''thorium-browser'', ''--version''], Print ''Thorium browser is not installed.'']"
  have p: "get_installed_version ?w [] = (Inr None, ?tr1)"
    by (simp add: scenario_not_installed)
  have q: "get_latest_deb_release ?w ''Alex313031'' ''Thorium'' ?tr1 =
             (Inr (Some deb_url), ?tr1 @ [Get (api_url ''Alex313031'' ''Thorium'')])"
    by (rule scenario_release_with_deb)
  have m: "main ?w Install [] =
     (Inl (HTTPError 404),
      [Run [''thorium-browser'', ''--version''], Print ''Thorium browser is not installed.'',
       Get (api_url ''Alex313031'' ''Thorium''),
       Print (''Latest .deb release URL: '' @ deb_url),
       Get deb_url])"
    using main_download [OF _ p _ q latest_version_deb_url, where cmd = Install]
    by (simp add: scenario_download package_missing_def bind_io_def)
  show ?thesis
    unfolding m using p q by (simp add: deb_path_def)
qed

text \<open>
  C10. In the installer's fallback path, when the force-install invocation exits with a
  non-zero status, the installer raises CalledProcessError for that invocation, and the
  trace ends with it: the fix-broken-dependencies invocation is not executed.
\<close>

theorem install_deb_dpkg_failure_propagates:
  assumes "proc w tr [''sudo'', ''nala'', ''install'', p] = Exited rc out" "rc \<noteq> 0"
    and "proc w (tr @ [Run [''sudo'', ''nala'', ''install'', p],
                       Print ''Nala failed to install the package. Attempting with dpkg...''])
            [''sudo'', ''dpkg'', ''-i'', p] = Exited rc' out'" "rc' \<noteq> 0"
  shows "install_deb w p tr =
           (Inl (CalledProcessError rc' [''sudo'', ''dpkg'', ''-i'', p]),
            tr @ [Run [''sudo'', ''nala'', ''install'', p],
                  Print ''Nala failed to install the package. Attempting with dpkg...'',
                  Run [''sudo'', ''dpkg'', ''-i'', p]])"
  using assms by (simp add: install_deb_unfold subprocess_run_def io_defs)

theorem install_deb_dpkg_failure_propagates_witness:
  "install_deb (scenario NotFound [([''sudo'', ''nala'', ''install'', ''/tmp/t_1_x.deb''], 1),
                                   ([''sudo'', ''dpkg'', ''-i'', ''/tmp/t_1_x.deb''], 1)] release_with_deb package_body)
       ''/tmp/t_1_x.deb'' [] =
     (Inl (CalledProcessError 1 [''sudo'', ''dpkg'', ''-i'', ''/tmp/t_1_x.deb'']),
      [Run [''sudo'', ''nala'', ''install'', ''/tmp/t_1_x.deb''],
       Print ''Nala failed to install the package. Attempting with dpkg...'',
       Run [''sudo'', ''dpkg'', ''-i'', ''/tmp/t_1_x.deb'']])"
  using install_deb_dpkg_failure_propagates [of "scenario NotFound [([''sudo'', ''nala'', ''install'', ''/tmp/t_1_x.deb''], 1),
                                   ([''sudo'', ''dpkg'', ''-i'', ''/tmp/t_1_x.deb''], 1)] release_with_deb package_body"
      "[]" "''/tmp/t_1_x.deb''" 1 "[]" 1 "[]"]
  by (simp add: scenario_defs)

end
